theory Spec2Isabelle
  imports Main
begin

section \<open>The document tree\<close>

text \<open>
  The nodes of the parsed tree, as the rules of
  \<^verbatim>\<open>environment-subs.ts\<close> and of the MathJax-specific macro rules read them.
  A macro has its name in \<^verbatim>\<open>content\<close> and an optional argument array; an environment
  has its name in \<^verbatim>\<open>env\<close>, an optional argument array and a content array. An
  argument carries its open mark, its content and its close mark. The render
  information read by the rules is kept with the node: \<^verbatim>\<open>_renderInfo.sysdelims\<close>
  on a macro (a pair of delimiter sequences, each of which may be missing) and
  \<^verbatim>\<open>_renderInfo.additionalAttributes\<close> on an environment; \<open>None\<close> stands for a
  missing \<^verbatim>\<open>_renderInfo\<close> as well as for a missing field of it, since the rules
  read both through optional chaining.

  Modelled from the spec: \<^verbatim>\<open>htmlLike\<close> (package unified-latex-util-html-like) is
  not under src/. The spec describes it as a constructor
  \<^verbatim>\<open>buildBlock(tag, content, attributes?)\<close> of an opaque escape-hatch node, so its
  result is the constructor \<open>HtmlLike\<close> holding the three inputs; the attributes
  are \<open>None\<close> where the caller passes none.
\<close>

type_synonym attributes = "(string \<times> string) list"

datatype node =
    MacroNode macro
  | EnvironmentNode environment
  | StringNode string
  | Whitespace
  | Parbreak
  | Comment string
  | Group "node list"
  | InlineMath "node list"
  | DisplayMath "node list"
  | HtmlLike (html_tag: string) (html_content: "node list") (html_attributes: "attributes option")
and macro =
    Macro (m_content: string)
          (m_args: "argument list option")
          (m_sysdelims: "(node list option \<times> node list option) option")
and environment =
    Environment (e_env: string)
                (e_args: "argument list option")
                (e_content: "node list")
                (e_additionalAttributes: "attributes option")
and argument =
    Argument (openMark: string) (a_content: "node list") (closeMark: string)

text \<open>What a rule may raise.\<close>

datatype error =
    ItemArgsMissing macro     \<comment> \<open>the \<^verbatim>\<open>throw new Error("Cannot find \\item macros arguments ...")\<close>\<close>
  | TypeError                 \<comment> \<open>reading a property of \<^verbatim>\<open>undefined\<close>\<close>
  | External string           \<comment> \<open>raised inside a collaborator that is not in this file\<close>

text \<open>
  A rule returns one node or an array of nodes
  (\<^verbatim>\<open>Ast.Node | Ast.Node[]\<close>).
\<close>

datatype replacement = Single node | Many "node list"

section \<open>Collaborators\<close>

text \<open>
  Modelled from the spec: \<^verbatim>\<open>getArgsContent\<close> and \<^verbatim>\<open>getNamedArgsContent\<close>
  (package unified-latex-util-arguments) are not under src/. The spec gives them as
  \<^verbatim>\<open>extractPositionalSlots(node) -> sequence\<close> and
  \<^verbatim>\<open>extractNamedSlots(node, signature) -> mapping\<close>: every slot is a node sequence
  or \<^verbatim>\<open>null\<close>, a slot that is present but empty is distinct from an absent one,
  and a \<^verbatim>\<open>null\<close> entry of the signature marks a positional slot to ignore. An
  argument was not supplied when its open mark is empty and it has no content (the
  comment in \<^verbatim>\<open>enumerateToHtml\<close>: "We test the open mark to see if an optional
  argument was actually supplied"). A node without an argument array has no slots.
\<close>

definition argContent :: "argument \<Rightarrow> node list option" where
  "argContent a = (if openMark a = [] \<and> a_content a = [] then None else Some (a_content a))"

definition getArgsContent :: "argument list option \<Rightarrow> node list option list" where
  "getArgsContent args = (case args of None \<Rightarrow> [] | Some as \<Rightarrow> map argContent as)"

fun namedSlots :: "argument list \<Rightarrow> string option list \<Rightarrow> (string \<times> node list option) list" where
  "namedSlots (a # as) (Some n # ns) = (n, argContent a) # namedSlots as ns"
| "namedSlots (a # as) (None # ns) = namedSlots as ns"
| "namedSlots _ _ = []"

definition getNamedArgsContent :: "macro \<Rightarrow> string option list \<Rightarrow> (string \<rightharpoonup> node list option)" where
  "getNamedArgsContent node names =
     (case m_args node of None \<Rightarrow> Map.empty | Some as \<Rightarrow> map_of (rev (namedSlots as names)))"

text \<open>\<^verbatim>\<open>match.macro(node, "item")\<close> and \<^verbatim>\<open>match.macro(node)\<close>.\<close>

fun match_macro_named :: "node \<Rightarrow> string \<Rightarrow> bool" where
  "match_macro_named (MacroNode m) name = (m_content m = name)"
| "match_macro_named _ name = False"

fun match_macro :: "node \<Rightarrow> bool" where
  "match_macro (MacroNode m) = True"
| "match_macro _ = False"

text \<open>
  Modelled from the spec: \<^verbatim>\<open>makeWarningMessage\<close> (./utils) and the \<^verbatim>\<open>VFile\<close> sink
  are not under src/. The spec gives the sink as \<^verbatim>\<open>emit(message, sourcePosition,
  originTag)\<close>, fire-and-forget. A message keeps the environment it is about, its
  text and its origin tag; \<^verbatim>\<open>file.message\<close> appends to the messages of the file.
  The place and the source that \<^verbatim>\<open>envFactory\<close> passes besides the message are
  fields of that same message.
\<close>

datatype message = WarningMessage (msg_env: environment) (msg_text: string) (msg_source: string)

record VFile =
  messages :: "message list"

definition makeWarningMessage :: "environment \<Rightarrow> string \<Rightarrow> string \<Rightarrow> message" where
  "makeWarningMessage env text warningType = WarningMessage env text warningType"

definition file_message :: "message \<Rightarrow> VFile \<Rightarrow> VFile" where
  "file_message m file = file\<lparr>messages := messages file @ [m]\<rparr>"

text \<open>The traversal position handed to a rule; no rule of the file reads it.\<close>

type_synonym VisitInfo = unit

section \<open>Item arguments\<close>

definition ITEM_ARG_NAMES_REG :: "string option list" where
  "ITEM_ARG_NAMES_REG = [Some ''label'']"

definition ITEM_ARG_NAMES_BEAMER :: "string option list" where
  "ITEM_ARG_NAMES_BEAMER = [None, Some ''label'', None]"

text \<open>
  \<^verbatim>\<open>ItemArgs\<close>: the label (\<open>None\<close> for \<^verbatim>\<open>null\<close> and for a missing key alike, the
  caller tests \<^verbatim>\<open>label != null\<close>) and the body.
\<close>

record ItemArgs =
  label :: "node list option"
  body :: "node list"

text \<open>
  \<^verbatim>\<open>getItemArgs\<close>. It raises when the node has no argument array. On an empty
  array \<^verbatim>\<open>node.args[node.args.length - 1]\<close> is \<^verbatim>\<open>undefined\<close> and reading its
  \<^verbatim>\<open>content\<close> raises a TypeError. Otherwise the signature is the three-slot one
  when exactly three arguments come before the body, and the one-slot one for
  every other count.
\<close>

definition getItemArgs :: "macro \<Rightarrow> error + ItemArgs" where
  "getItemArgs node =
     (case m_args node of
        None \<Rightarrow> Inl (ItemArgsMissing node)
      | Some as \<Rightarrow>
          (let argNames =
                 (if int (length as) - 1 = int (length ITEM_ARG_NAMES_BEAMER)
                  then ITEM_ARG_NAMES_BEAMER else ITEM_ARG_NAMES_REG)
           in if as = [] then Inl TypeError
              else Inr \<lparr> label = (case getNamedArgsContent node argNames ''label'' of
                                    None \<Rightarrow> None | Some v \<Rightarrow> v),
                         body = a_content (last as) \<rparr>))"

section \<open>Lists: enumerateFactory\<close>

text \<open>
  \<^verbatim>\<open>wrapPars\<close> (../wrap-pars) is not under src/; the rules take it as a parameter.
  The rules hand it an array of the tree itself (an item's body, an environment's
  content), not a copy, so a call of it is given by two results: the paragraphs it
  returns, and the array it was handed as the call leaves it. The array it returns
  is taken to be a new one. A call that raises is not modelled: no rule of the
  file has a handler around it, so the rule would raise what \<^verbatim>\<open>wrapPars\<close> raises.
\<close>

type_synonym parWrapper = "node list \<Rightarrow> node list \<times> node list"

text \<open>
  The callback of the \<^verbatim>\<open>flatMap\<close> in \<^verbatim>\<open>enumerateToHtml\<close>: it yields the nodes
  produced for one item and whether it set \<^verbatim>\<open>isDescriptionList\<close>. An item that is
  no macro or has no argument array yields nothing; \<^verbatim>\<open>getItemArgs\<close> may raise.
  The list rule is modelled by the node it returns; what \<^verbatim>\<open>wrapPars\<close> leaves in
  the body array of an item is not part of it.
\<close>

fun enumerateItem :: "parWrapper \<Rightarrow> node \<Rightarrow> error + (bool \<times> node list)" where
  "enumerateItem wrapPars (MacroNode m) =
     (case m_args m of
        None \<Rightarrow> Inr (False, [])
      | Some _ \<Rightarrow>
          (case getItemArgs m of
             Inl e \<Rightarrow> Inl e
           | Inr namedArgs \<Rightarrow>
               (let wrapped = fst (wrapPars (body namedArgs))
                in case label namedArgs of
                     None \<Rightarrow> Inr (False, [HtmlLike ''li'' wrapped None])
                   | Some l \<Rightarrow>
                       Inr (True, [HtmlLike ''li'' (HtmlLike ''title'' l None # wrapped) None]))))"
| "enumerateItem wrapPars _ = Inr (False, [])"

text \<open>
  The \<^verbatim>\<open>flatMap\<close> over the items, left to right, with the flag
  \<^verbatim>\<open>isDescriptionList\<close> passed along; the first item that raises ends it.
\<close>

fun enumerateItems ::
  "parWrapper \<Rightarrow> bool \<Rightarrow> node list \<Rightarrow> error + (bool \<times> node list)" where
  "enumerateItems wrapPars isDescriptionList [] = Inr (isDescriptionList, [])"
| "enumerateItems wrapPars isDescriptionList (n # ns) =
     (case enumerateItem wrapPars n of
        Inl e \<Rightarrow> Inl e
      | Inr (d, out) \<Rightarrow>
          (case enumerateItems wrapPars (isDescriptionList \<or> d) ns of
             Inl e \<Rightarrow> Inl e
           | Inr (d', rest) \<Rightarrow> Inr (d', out @ rest)))"

text \<open>
  \<^verbatim>\<open>enumerateFactory(parentTag = "ol")\<close>: \<open>None\<close> is the omitted parameter.
\<close>

definition enumerateFactory ::
  "parWrapper \<Rightarrow> string option \<Rightarrow> environment \<Rightarrow> error + node" where
  "enumerateFactory wrapPars parentTag env =
     (let items = filter (\<lambda>node. match_macro_named node ''item'') (e_content env)
      in case enumerateItems wrapPars False items of
           Inl e \<Rightarrow> Inl e
         | Inr (isDescriptionList, content) \<Rightarrow>
             Inr (HtmlLike (if isDescriptionList then ''dl''
                            else (case parentTag of None \<Rightarrow> ''ol'' | Some t \<Rightarrow> t))
                           content None))"

section \<open>Blocks: envFactory\<close>

text \<open>
  \<^verbatim>\<open>EnvFactoryOptions\<close>: every field may be omitted; the defaults are applied by
  the destructuring in \<^verbatim>\<open>envFactory\<close>.
\<close>

record EnvFactoryOptions =
  requiresStatementTag :: "bool option"
  wrapContentInPars :: "bool option"
  extractTitleFromArgs :: "bool option"
  warningMessage :: "string option"

definition no_options :: EnvFactoryOptions where
  "no_options = \<lparr> requiresStatementTag = None, wrapContentInPars = None,
                   extractTitleFromArgs = None, warningMessage = None \<rparr>"

text \<open>
  The rule built by \<^verbatim>\<open>envFactory(tag, options)\<close>. It returns one node. Besides the
  node, the model returns the file and the environment as the call leaves them.
  The file, because a configured warning is appended to it. The environment,
  because its content array is written to in two ways: with paragraph wrapping
  on, \<^verbatim>\<open>env.content\<close> itself is handed to \<^verbatim>\<open>wrapPars\<close>, and is afterwards what
  \<^verbatim>\<open>wrapPars\<close> left in it; with paragraph wrapping off and no statement wrapper,
  \<^verbatim>\<open>content\<close> is the environment's own content array, and \<^verbatim>\<open>content.unshift\<close> of
  the title writes into that array.
\<close>

definition envFactory ::
  "parWrapper \<Rightarrow> string \<Rightarrow> EnvFactoryOptions \<Rightarrow>
   environment \<Rightarrow> VisitInfo \<Rightarrow> VFile option \<Rightarrow> node \<times> environment \<times> VFile option" where
  "envFactory wrapPars tag options env info file =
     (let requiresStatementTag' = (case requiresStatementTag options of None \<Rightarrow> False | Some b \<Rightarrow> b);
          wrapContentInPars' = (case wrapContentInPars options of None \<Rightarrow> True | Some b \<Rightarrow> b);
          extractTitleFromArgs' = (case extractTitleFromArgs options of None \<Rightarrow> True | Some b \<Rightarrow> b);
          warningMessage' = (case warningMessage options of None \<Rightarrow> [] | Some w \<Rightarrow> w);
          file' = (case file of
                     None \<Rightarrow> None
                   | Some f \<Rightarrow>
                       if warningMessage' \<noteq> []
                       then Some (file_message (makeWarningMessage env warningMessage' ''env-subs'') f)
                       else Some f);
          wrapped = wrapPars (e_content env);
          content0 = (if wrapContentInPars' then fst wrapped else e_content env);
          own = (if wrapContentInPars' then snd wrapped else e_content env);
          shared = (\<not> wrapContentInPars' \<and> \<not> requiresStatementTag');
          content1 = (if requiresStatementTag' then [HtmlLike ''statement'' content0 None] else content0);
          title = (if extractTitleFromArgs'
                   then (case getArgsContent (e_args env) of
                           Some t # _ \<Rightarrow> [HtmlLike ''title'' t None]
                         | _ \<Rightarrow> [])
                   else []);
          content2 = title @ content1;
          env' = Environment (e_env env) (e_args env) (if shared then content2 else own)
                   (e_additionalAttributes env);
          attributes = (case e_additionalAttributes env of None \<Rightarrow> [] | Some a \<Rightarrow> a)
      in (HtmlLike tag content2 (Some attributes), env', file'))"

section \<open>Environment removal\<close>

text \<open>
  \<^verbatim>\<open>removeEnv\<close>: the warning goes to the file through \<^verbatim>\<open>file?.message\<close>, so
  nothing is recorded when no file is passed. The content array is returned as
  it is.
\<close>

definition removeEnv ::
  "environment \<Rightarrow> VisitInfo \<Rightarrow> VFile option \<Rightarrow> node list \<times> VFile option" where
  "removeEnv env info file =
     (e_content env,
      (case file of
         None \<Rightarrow> None
       | Some f \<Rightarrow>
           Some (file_message
                   (makeWarningMessage env
                      (''Warning: There is no equivalent tag for '' @ [CHR 0x22] @ e_env env @
                       [CHR 0x22] @ '', so the '' @ e_env env @ '' environment was removed.'')
                      ''environment-subs'') f)))"

section \<open>The environment registry\<close>

text \<open>
  A registry entry is called with the environment, the traversal position and
  the file, and returns one node or an array of nodes, or raises. \<open>Returned\<close>
  carries, besides the replacement, the environment and the file as the call
  leaves them.
\<close>

datatype outcome = Raised error | Returned replacement environment "VFile option"

type_synonym rule = "environment \<Rightarrow> VisitInfo \<Rightarrow> VFile option \<Rightarrow> outcome"

text \<open>The closures \<^verbatim>\<open>enumerateFactory(..)\<close> and \<^verbatim>\<open>envFactory(..)\<close> as registry entries.\<close>

definition listRule :: "parWrapper \<Rightarrow> string option \<Rightarrow> rule" where
  "listRule wrapPars parentTag env info file =
     (case enumerateFactory wrapPars parentTag env of
        Inl e \<Rightarrow> Raised e
      | Inr n \<Rightarrow> Returned (Single n) env file)"

definition blockRule :: "parWrapper \<Rightarrow> string \<Rightarrow> EnvFactoryOptions \<Rightarrow> rule" where
  "blockRule wrapPars tag options env info file =
     (case envFactory wrapPars tag options env info file of
        (n, env', file') \<Rightarrow> Returned (Single n) env' file')"

text \<open>
  A JavaScript object built from entries in order: a later entry for a key
  replaces an earlier one (\<^verbatim>\<open>Object.fromEntries\<close>, and the properties of an object
  literal). In an object literal \<^verbatim>\<open>{ k1: v1, ..., kn: vn, ...spread }\<close> the spread
  comes last, so its entries replace the written ones.
\<close>

definition fromEntries :: "(string \<times> 'a) list \<Rightarrow> (string \<rightharpoonup> 'a)" where
  "fromEntries es = foldl (\<lambda>m (k, v). m(k \<mapsto> v)) Map.empty es"

definition objectWithSpread :: "(string \<times> 'a) list \<Rightarrow> (string \<rightharpoonup> 'a) \<Rightarrow> (string \<rightharpoonup> 'a)" where
  "objectWithSpread props spread = fromEntries props ++ spread"

record EnvSpec =
  requiresStatement :: bool
  aliases :: "string list"

text \<open>The table \<^verbatim>\<open>envAliases\<close> of \<^verbatim>\<open>genEnvironmentReplacements\<close>, in its order.\<close>

definition envAliases :: "(string \<times> EnvSpec) list" where
  "envAliases =
    [
     (''abstract'', \<lparr> requiresStatement = False, aliases = [''abs'', ''abstr''] \<rparr>),
     (''acknowledgement'', \<lparr> requiresStatement = False, aliases = [''ack''] \<rparr>),
     (''algorithm'', \<lparr> requiresStatement = True, aliases = [''algo'', ''alg''] \<rparr>),
     (''answer'', \<lparr> requiresStatement = False, aliases = [''ans''] \<rparr>),
     (''assumption'', \<lparr> requiresStatement = True, aliases = [''assu'', ''ass''] \<rparr>),
     (''axiom'', \<lparr> requiresStatement = True, aliases = [''axm''] \<rparr>),
     (''claim'', \<lparr> requiresStatement = True, aliases = [''cla''] \<rparr>),
     (''conjecture'', \<lparr> requiresStatement = True, aliases = [''con'', ''conj'', ''conjec''] \<rparr>),
     (''construction'', \<lparr> requiresStatement = False, aliases = [] \<rparr>),
     (''convention'', \<lparr> requiresStatement = False, aliases = [''conv''] \<rparr>),
     (''corollary'', \<lparr> requiresStatement = True, aliases = [''cor'', ''corr'', ''coro'', ''corol'', ''corss''] \<rparr>),
     (''definition'', \<lparr> requiresStatement = True, aliases = [''def'', ''defn'', ''dfn'', ''defi'', ''defin'', ''de''] \<rparr>),
     (''example'', \<lparr> requiresStatement = True, aliases = [''exam'', ''exa'', ''eg'', ''exmp'', ''expl'', ''exm''] \<rparr>),
     (''exercise'', \<lparr> requiresStatement = True, aliases = [''exer'', ''exers''] \<rparr>),
     (''exploration'', \<lparr> requiresStatement = False, aliases = [] \<rparr>),
     (''fact'', \<lparr> requiresStatement = True, aliases = [] \<rparr>),
     (''heuristic'', \<lparr> requiresStatement = True, aliases = [] \<rparr>),
     (''hint'', \<lparr> requiresStatement = False, aliases = [] \<rparr>),
     (''hypothesis'', \<lparr> requiresStatement = True, aliases = [''hyp''] \<rparr>),
     (''identity'', \<lparr> requiresStatement = True, aliases = [''idnty''] \<rparr>),
     (''insight'', \<lparr> requiresStatement = False, aliases = [] \<rparr>),
     (''investigation'', \<lparr> requiresStatement = False, aliases = [] \<rparr>),
     (''lemma'', \<lparr> requiresStatement = True, aliases = [''lem'', ''lma'', ''lemm'', ''lm''] \<rparr>),
     (''notation'', \<lparr> requiresStatement = False, aliases = [''no'', ''nota'', ''ntn'', ''nt'', ''notn'', ''notat''] \<rparr>),
     (''note'', \<lparr> requiresStatement = False, aliases = [''notes''] \<rparr>),
     (''observation'', \<lparr> requiresStatement = False, aliases = [''obs''] \<rparr>),
     (''principle'', \<lparr> requiresStatement = True, aliases = [] \<rparr>),
     (''problem'', \<lparr> requiresStatement = True, aliases = [''prob'', ''prb''] \<rparr>),
     (''project'', \<lparr> requiresStatement = False, aliases = [] \<rparr>),
     (''proof'', \<lparr> requiresStatement = False, aliases = [''pf'', ''prf'', ''demo''] \<rparr>),
     (''proposition'', \<lparr> requiresStatement = True, aliases = [''prop'', ''pro'', ''prp'', ''props''] \<rparr>),
     (''question'', \<lparr> requiresStatement = True, aliases = [''qu'', ''ques'', ''quest'', ''qsn''] \<rparr>),
     (''remark'', \<lparr> requiresStatement = False, aliases = [''rem'', ''rmk'', ''rema'', ''bem'', ''subrem''] \<rparr>),
     (''task'', \<lparr> requiresStatement = True, aliases = [] \<rparr>),
     (''theorem'', \<lparr> requiresStatement = True, aliases = [''thm'', ''theo'', ''theor'', ''thmss'', ''thrm''] \<rparr>),
     (''solution'', \<lparr> requiresStatement = False, aliases = [''sol''] \<rparr>),
     (''warning'', \<lparr> requiresStatement = False, aliases = [''warn'', ''wrn''] \<rparr>)
    ]"

definition exapandedEnvAliases :: "parWrapper \<Rightarrow> (string \<times> rule) list" where
  "exapandedEnvAliases wrapPars =
     concat (map (\<lambda>(env, spec).
                    (env, blockRule wrapPars env
                            (no_options\<lparr>requiresStatementTag := Some (requiresStatement spec)\<rparr>))
                    # map (\<lambda>name.
                             (name, blockRule wrapPars env
                                      (no_options\<lparr>requiresStatementTag := Some (requiresStatement spec)\<rparr>)))
                          (aliases spec))
                 envAliases)"

definition genEnvironmentReplacements :: "parWrapper \<Rightarrow> (string \<rightharpoonup> rule)" where
  "genEnvironmentReplacements wrapPars = fromEntries (exapandedEnvAliases wrapPars)"

text \<open>
  The entries written out in \<^verbatim>\<open>environmentReplacements\<close>, in their order.
  \<^verbatim>\<open>createTableFromTabular\<close> (./create-table-from-tabular) is not under src/; the
  registry takes it as a parameter.
\<close>

definition containerOptions :: EnvFactoryOptions where
  "containerOptions = \<lparr> requiresStatementTag = Some False, wrapContentInPars = Some False,
                         extractTitleFromArgs = Some False, warningMessage = None \<rparr>"

definition writtenEntries :: "parWrapper \<Rightarrow> rule \<Rightarrow> (string \<times> rule) list" where
  "writtenEntries wrapPars createTableFromTabular =
     [(''enumerate'', listRule wrapPars (Some ''ol'')),
      (''itemize'', listRule wrapPars (Some ''ul'')),
      (''tabular'', createTableFromTabular),
      (''center'', blockRule wrapPars ''blockquote'' no_options),
      (''quote'', blockRule wrapPars ''blockquote'' no_options),
      (''figure'', blockRule wrapPars ''figure'' containerOptions),
      (''table'', blockRule wrapPars ''table'' containerOptions)]"

definition environmentReplacements :: "parWrapper \<Rightarrow> rule \<Rightarrow> (string \<rightharpoonup> rule)" where
  "environmentReplacements wrapPars createTableFromTabular =
     objectWithSpread (writtenEntries wrapPars createTableFromTabular)
                      (genEnvironmentReplacements wrapPars)"

section \<open>The systeme macro\<close>

definition LEFT :: macro where "LEFT = Macro ''left'' None None"
definition RIGHT :: macro where "RIGHT = Macro ''right'' None None"
definition DEFAULT_LEFT_DELIM :: macro where "DEFAULT_LEFT_DELIM = Macro ''{'' None None"
definition DEFAULT_RIGHT_DELIM :: node where "DEFAULT_RIGHT_DELIM = StringNode ''.''"

text \<open>The options object passed to \<^verbatim>\<open>systemeContentsToArray\<close>.\<close>

record SystemeOptions =
  properSpacing :: bool
  whitelistedVariables :: "node list option"

text \<open>\<^verbatim>\<open>args[i]\<close>: \<^verbatim>\<open>undefined\<close> beyond the end of the array, read as \<^verbatim>\<open>null\<close> is.\<close>

definition slot :: "'a option list \<Rightarrow> nat \<Rightarrow> 'a option" where
  "slot args i = (if i < length args then args ! i else None)"

text \<open>
  The rule for \<^verbatim>\<open>systeme\<close>. Both calls inside the \<^verbatim>\<open>try\<close> block go to code that is
  not under src/ (\<^verbatim>\<open>getArgsContent\<close> and \<^verbatim>\<open>systemeContentsToArray\<close> of the systeme
  package); either may raise there, so the rule takes them as parameters that
  return a sum. The handler returns the node.
\<close>

definition systeme ::
  "(macro \<Rightarrow> error + node list option list) \<Rightarrow>
   (node list \<Rightarrow> SystemeOptions \<Rightarrow> error + node) \<Rightarrow> macro \<Rightarrow> replacement" where
  "systeme getArgs systemeContentsToArray node =
     (case getArgs node of
        Inl e \<Rightarrow> Single (MacroNode node)
      | Inr args \<Rightarrow>
          (let whitelisted = slot args 1;
               equations = (case slot args 3 of None \<Rightarrow> [] | Some eqs \<Rightarrow> eqs)
           in case systemeContentsToArray equations
                     \<lparr> properSpacing = False, whitelistedVariables = whitelisted \<rparr> of
                Inl e \<Rightarrow> Single (MacroNode node)
              | Inr ret \<Rightarrow>
                  (case m_sysdelims node of
                     Some (frontDelim, backDelim) \<Rightarrow>
                       Many ([MacroNode LEFT]
                             @ (case frontDelim of None \<Rightarrow> [] | Some d \<Rightarrow> d)
                             @ [ret, MacroNode RIGHT]
                             @ (case backDelim of None \<Rightarrow> [] | Some d \<Rightarrow> d))
                   | None \<Rightarrow>
                       Many [MacroNode LEFT, MacroNode DEFAULT_LEFT_DELIM, ret,
                             MacroNode RIGHT, DEFAULT_RIGHT_DELIM])))"

definition sysdelim :: "macro \<Rightarrow> replacement" where
  "sysdelim node = Many []"

definition mathjaxSpecificMacroReplacements ::
  "(macro \<Rightarrow> error + node list option list) \<Rightarrow>
   (node list \<Rightarrow> SystemeOptions \<Rightarrow> error + node) \<Rightarrow> (string \<rightharpoonup> (macro \<Rightarrow> replacement))" where
  "mathjaxSpecificMacroReplacements getArgs systemeContentsToArray =
     fromEntries [(''systeme'', systeme getArgs systemeContentsToArray), (''sysdelim'', sysdelim)]"

section \<open>Notions used in the statements\<close>

text \<open>The diagnostics a file holds; none without a file.\<close>

definition diagnostics :: "VFile option \<Rightarrow> message list" where
  "diagnostics file = (case file of None \<Rightarrow> [] | Some f \<Rightarrow> messages f)"

text \<open>
  The children of a list environment that \<^verbatim>\<open>enumerateToHtml\<close> turns into list
  items: the macros named \<^verbatim>\<open>item\<close> that have an argument array.
\<close>

fun listItems :: "node list \<Rightarrow> macro list" where
  "listItems [] = []"
| "listItems (MacroNode m # ns) =
     (if m_content m = ''item'' \<and> m_args m \<noteq> None then m # listItems ns else listItems ns)"
| "listItems (_ # ns) = listItems ns"

text \<open>The label and the body that \<^verbatim>\<open>getItemArgs\<close> extracts from an item.\<close>

definition itemLabel :: "macro \<Rightarrow> node list option" where
  "itemLabel m = (case getItemArgs m of Inl e \<Rightarrow> None | Inr a \<Rightarrow> label a)"

definition itemBody :: "macro \<Rightarrow> node list" where
  "itemBody m = (case getItemArgs m of Inl e \<Rightarrow> [] | Inr a \<Rightarrow> body a)"

text \<open>The selectors of the generated entries, in the order of the table.\<close>

definition generatedNames :: "string list" where
  "generatedNames = concat (map (\<lambda>(env, spec). env # aliases spec) envAliases)"

text \<open>
  A stand-in for the paragraph wrapper at concrete inputs, for arrays without a
  paragraph break inside: it trims the whitespace at both ends of the array it
  is handed, in place, and returns one paragraph around the rest.
\<close>

fun isSpace :: "node \<Rightarrow> bool" where
  "isSpace Whitespace = True"
| "isSpace Parbreak = True"
| "isSpace _ = False"

definition trim :: "node list \<Rightarrow> node list" where
  "trim ns = rev (dropWhile isSpace (rev (dropWhile isSpace ns)))"

definition wrapOnePar :: parWrapper where
  "wrapOnePar ns = ([HtmlLike ''p'' (trim ns) None], trim ns)"

text \<open>
  The list item built for one item: the title, when the item has a label, then
  the wrapped body.
\<close>

definition listItemHtml :: "parWrapper \<Rightarrow> macro \<Rightarrow> node" where
  "listItemHtml wrapPars m =
     HtmlLike ''li''
       ((case itemLabel m of None \<Rightarrow> [] | Some l \<Rightarrow> [HtmlLike ''title'' l None])
        @ fst (wrapPars (itemBody m))) None"

section \<open>Properties of item-argument extraction and of the list rule\<close>

text \<open>
  C8, as stated: item-argument extraction raises whenever the number of
  arguments before the body is neither one nor three. It fails on an item with
  two arguments before the body: every count other than three is read with the
  one-slot signature, and the extraction returns.
\<close>

theorem getItemArgs_three_arguments_counterexample:
  "getItemArgs (Macro ''item''
       (Some [Argument ''['' [StringNode ''a''] '']'',
              Argument ''['' [StringNode ''b''] '']'',
              Argument [] [StringNode ''body''] []]) None)
   = Inr \<lparr> label = Some [StringNode ''a''], body = [StringNode ''body''] \<rparr>"
  by (simp add: getItemArgs_def getNamedArgsContent_def ITEM_ARG_NAMES_REG_def
        ITEM_ARG_NAMES_BEAMER_def argContent_def)

text \<open>
  What the extraction returns on a non-empty argument array: the body is the
  content of the last argument; the label is the second argument when exactly
  three arguments follow the first (three before the body), and the first
  argument for every other count.
\<close>

lemma namedSlots_beamer:
  "length rest = 3 \<Longrightarrow>
   namedSlots (a # rest) [None, Some ''label'', None] = [(''label'', argContent (hd rest))]"
  by (cases rest; cases "tl rest"; cases "tl (tl rest)") auto

lemma namedSlots_reg:
  "namedSlots (a # rest) [Some ''label''] = [(''label'', argContent a)]"
  by (cases rest) simp_all

lemma getItemArgs_nonempty:
  "getItemArgs (Macro name (Some (a # rest)) ri) =
     Inr \<lparr> label = (if length rest = 3 then argContent (hd rest) else argContent a),
           body = a_content (last (a # rest)) \<rparr>"
  by (simp add: getItemArgs_def getNamedArgsContent_def ITEM_ARG_NAMES_REG_def
        ITEM_ARG_NAMES_BEAMER_def Let_def namedSlots_beamer namedSlots_reg
        del: namedSlots.simps)

text \<open>
  C8, amended: item-argument extraction raises when the item has no argument
  array (the body was never attached). It does not check the number of
  arguments: on every non-empty argument array it returns, the body being the
  content of the last argument. With exactly three arguments before the body it
  reads the three-slot signature, so the label is the second argument; with any
  other count it reads the one-slot signature, so the label is the first
  argument of the array. In particular the label is the argument before the
  body when there is one, and the middle one when there are three.
\<close>

theorem getItemArgs_raises_without_arguments:
  "getItemArgs (Macro name None ri) = Inl (ItemArgsMissing (Macro name None ri))
   \<and> getItemArgs (Macro name (Some (a # rest)) ri) =
       Inr \<lparr> label = (if length rest = 3 then argContent (hd rest) else argContent a),
             body = a_content (last (a # rest)) \<rparr>
   \<and> getItemArgs (Macro name (Some [l, b]) ri) = Inr \<lparr> label = argContent l, body = a_content b \<rparr>
   \<and> getItemArgs (Macro name (Some [x, l, y, b]) ri)
       = Inr \<lparr> label = argContent l, body = a_content b \<rparr>"
  using getItemArgs_nonempty [of name a rest ri] getItemArgs_nonempty [of name l "[b]" ri]
    getItemArgs_nonempty [of name x "[l, y, b]" ri]
  by (simp add: getItemArgs_def)

text \<open>
  What the list rule does when every item that has an argument array has a
  non-empty one: each such item yields one list item, in order, and the list is
  a description list exactly when some item has a label.
\<close>

lemma getItemArgs_returns:
  "m_args m = Some as \<Longrightarrow> as \<noteq> [] \<Longrightarrow>
   getItemArgs m = Inr \<lparr> label = itemLabel m, body = itemBody m \<rparr>"
  by (simp add: getItemArgs_def itemLabel_def itemBody_def Let_def)

lemma enumerateItem_returns:
  assumes "m_args m = Some as" and "as \<noteq> []"
  shows "enumerateItem wrapPars (MacroNode m) =
           Inr (itemLabel m \<noteq> None, [listItemHtml wrapPars m])"
  using assms getItemArgs_returns [OF assms]
  by (simp add: listItemHtml_def Let_def split: option.splits)

lemma listItems_filter:
  "listItems (filter (\<lambda>node. match_macro_named node ''item'') ns) = listItems ns"
proof (induction ns)
  case Nil
  show ?case by simp
next
  case (Cons n ns)
  then show ?case by (cases n) simp_all
qed

lemma enumerateItems_returns:
  assumes "\<forall>n \<in> set ns. match_macro_named n ''item''"
    and "\<forall>m \<in> set (listItems ns). m_args m \<noteq> Some []"
  shows "enumerateItems wrapPars d ns =
           Inr (d \<or> (\<exists>m \<in> set (listItems ns). itemLabel m \<noteq> None),
                map (listItemHtml wrapPars) (listItems ns))"
  using assms
proof (induction ns arbitrary: d)
  case Nil
  show ?case by simp
next
  case (Cons n ns)
  from Cons.prems(1) obtain m where n: "n = MacroNode m" and name: "m_content m = ''item''"
    by (cases n) simp_all
  have rest: "\<forall>n \<in> set ns. match_macro_named n ''item''"
    using Cons.prems(1) by simp
  show ?case
  proof (cases "m_args m")
    case None
    then have items: "listItems (n # ns) = listItems ns"
      by (simp add: n)
    have "\<forall>m \<in> set (listItems ns). m_args m \<noteq> Some []"
      using Cons.prems(2) items by simp
    from Cons.IH [OF rest this] None show ?thesis
      by (simp add: n)
  next
    case (Some as)
    then have items: "listItems (n # ns) = m # listItems ns"
      by (simp add: n name)
    have ne: "as \<noteq> []"
      using Cons.prems(2) items Some by auto
    have wf: "\<forall>m \<in> set (listItems ns). m_args m \<noteq> Some []"
      using Cons.prems(2) items by simp
    show ?thesis
      unfolding items
      by (simp add: n enumerateItem_returns [OF Some ne] Cons.IH [OF rest wf]
            del: enumerateItem.simps)
  qed
qed

lemma enumerateFactory_returns:
  assumes "\<forall>m \<in> set (listItems (e_content env)). m_args m \<noteq> Some []"
  shows "enumerateFactory wrapPars parentTag env =
           Inr (HtmlLike
                  (if \<exists>m \<in> set (listItems (e_content env)). itemLabel m \<noteq> None then ''dl''
                   else (case parentTag of None \<Rightarrow> ''ol'' | Some t \<Rightarrow> t))
                  (map (listItemHtml wrapPars) (listItems (e_content env))) None)"
proof -
  let ?items = "filter (\<lambda>node. match_macro_named node ''item'') (e_content env)"
  have "\<forall>n \<in> set ?items. match_macro_named n ''item''" by simp
  moreover have "\<forall>m \<in> set (listItems ?items). m_args m \<noteq> Some []"
    using assms by (simp add: listItems_filter)
  ultimately have "enumerateItems wrapPars False ?items =
      Inr (False \<or> (\<exists>m \<in> set (listItems ?items). itemLabel m \<noteq> None),
           map (listItemHtml wrapPars) (listItems ?items))"
    by (rule enumerateItems_returns)
  then show ?thesis
    by (simp add: enumerateFactory_def listItems_filter)
qed

lemmas eval_defs = enumerateFactory_def getItemArgs_def getNamedArgsContent_def
  ITEM_ARG_NAMES_REG_def ITEM_ARG_NAMES_BEAMER_def argContent_def wrapOnePar_def trim_def Let_def
  itemLabel_def itemBody_def

text \<open>
  C2, as stated: with at least one labelled item the tag is \<^verbatim>\<open>dl\<close> and every
  item's list item gains a title in front of its body. It fails on a list with
  a labelled and an unlabelled item: the tag is \<^verbatim>\<open>dl\<close>, but the list item of
  the unlabelled item holds its wrapped body only.
\<close>

theorem enumerateFactory_unlabelled_item_counterexample:
  "enumerateFactory wrapOnePar (Some ''ul'')
     (Environment ''itemize'' None
       [MacroNode (Macro ''item''
          (Some [Argument ''['' [StringNode ''Key''] '']'', Argument [] [StringNode ''a''] []]) None),
        MacroNode (Macro ''item''
          (Some [Argument [] [] [], Argument [] [StringNode ''b''] []]) None)] None)
   = Inr (HtmlLike ''dl''
           [HtmlLike ''li'' [HtmlLike ''title'' [StringNode ''Key''] None,
                             HtmlLike ''p'' [StringNode ''a''] None] None,
            HtmlLike ''li'' [HtmlLike ''p'' [StringNode ''b''] None] None] None)"
  by (simp add: eval_defs)

text \<open>
  C2, amended: for every enumerate or itemize environment whose items each have
  an argument array holding at least the body, the rule returns one list
  element. If no item carries a label its tag is the caller's tag (\<^verbatim>\<open>ol\<close> for
  enumerate, \<^verbatim>\<open>ul\<close> for itemize); if at least one item carries a label the tag
  is \<^verbatim>\<open>dl\<close>. The content is one \<^verbatim>\<open>li\<close> per item, in order: an item with a
  label gets a title holding the label in front of its wrapped body, an item
  without a label gets its wrapped body alone.
\<close>

theorem enumerateFactory_tag_and_titles:
  assumes "\<forall>m \<in> set (listItems (e_content env)). m_args m \<noteq> Some []"
  shows "enumerateFactory wrapPars (Some parentTag) env =
           Inr (HtmlLike
                  (if \<forall>m \<in> set (listItems (e_content env)). itemLabel m = None
                   then parentTag else ''dl'')
                  (map (\<lambda>m. HtmlLike ''li''
                               (case itemLabel m of
                                  None \<Rightarrow> fst (wrapPars (itemBody m))
                                | Some l \<Rightarrow> HtmlLike ''title'' l None # fst (wrapPars (itemBody m)))
                               None)
                       (listItems (e_content env)))
                  None)"
proof -
  have "listItemHtml wrapPars =
          (\<lambda>m. HtmlLike ''li''
                  (case itemLabel m of
                     None \<Rightarrow> fst (wrapPars (itemBody m))
                   | Some l \<Rightarrow> HtmlLike ''title'' l None # fst (wrapPars (itemBody m)))
                  None)"
    by (rule ext) (simp add: listItemHtml_def split: option.splits)
  then show ?thesis
    using enumerateFactory_returns [OF assms, of wrapPars "Some parentTag"] by auto
qed

text \<open>
  The amended C2 at an itemize with two unlabelled items: tag \<^verbatim>\<open>ul\<close>, two list
  items in order.
\<close>

theorem enumerateFactory_tag_and_titles_witness:
  "enumerateFactory wrapOnePar (Some ''ul'')
     (Environment ''itemize'' None
       [MacroNode (Macro ''item''
          (Some [Argument [] [] [], Argument [] [StringNode ''a''] []]) None),
        MacroNode (Macro ''item''
          (Some [Argument [] [] [], Argument [] [StringNode ''b''] []]) None)] None)
   = Inr (HtmlLike ''ul''
           [HtmlLike ''li'' [HtmlLike ''p'' [StringNode ''a''] None] None,
            HtmlLike ''li'' [HtmlLike ''p'' [StringNode ''b''] None] None] None)"
  using enumerateFactory_tag_and_titles [of
     "Environment ''itemize'' None
       [MacroNode (Macro ''item''
          (Some [Argument [] [] [], Argument [] [StringNode ''a''] []]) None),
        MacroNode (Macro ''item''
          (Some [Argument [] [] [], Argument [] [StringNode ''b''] []]) None)] None"
     wrapOnePar "''ul''"]
  by (simp add: eval_defs)

text \<open>
  An item macro among the children of the list, with an argument array, is one
  of the items the rule turns into list items.
\<close>

lemma listItems_member:
  "MacroNode m \<in> set ns \<Longrightarrow> m_content m = ''item'' \<Longrightarrow> m_args m \<noteq> None \<Longrightarrow>
   m \<in> set (listItems ns)"
proof (induction ns)
  case Nil
  then show ?case by simp
next
  case (Cons n ns)
  then show ?case by (cases n) auto
qed

lemma item_label_and_body:
  "itemLabel (Macro name (Some (a # rest)) ri) =
     (if length rest = 3 then argContent (hd rest) else argContent a)"
  "itemBody (Macro name (Some (a # rest)) ri) = a_content (last (a # rest))"
  by (simp_all add: itemLabel_def itemBody_def getItemArgs_nonempty)

text \<open>
  C10, as stated: for every list environment with an item whose label slot is
  present but empty, the rule returns a description list. It fails on a list
  that holds, besides such an item, an item with an empty argument array: the
  extraction raises on that item and the rule returns nothing.
\<close>

theorem enumerateFactory_empty_label_counterexample:
  "enumerateFactory wrapOnePar (Some ''ol'')
     (Environment ''enumerate'' None
        [MacroNode (Macro ''item''
           (Some [Argument ''['' [] '']'', Argument [] [StringNode ''b''] []]) None),
         MacroNode (Macro ''item'' (Some []) None)] None)
   = Inl TypeError"
  by (simp add: eval_defs)

text \<open>
  C10, amended: for every list environment whose items each have an argument
  array holding at least the body, and that contains an item whose label slot
  is present but empty (the label argument, which is the first argument, or the
  second one when three arguments come before the body, was supplied with an
  open mark and has no content), the rule returns a description list (tag
  \<^verbatim>\<open>dl\<close>), and the list item of that item is a title element of empty content
  followed by the wrapped body.
\<close>

theorem enumerateFactory_empty_label:
  assumes "\<forall>m \<in> set (listItems (e_content env)). m_args m \<noteq> Some []"
    and "MacroNode (Macro ''item'' (Some (a # rest)) ri) \<in> set (e_content env)"
    and "rest \<noteq> []"
    and "l = (if length rest = 3 then hd rest else a)"
    and "openMark l \<noteq> []" and "a_content l = []"
  shows "\<exists>lis. enumerateFactory wrapPars parentTag env = Inr (HtmlLike ''dl'' lis None)
           \<and> HtmlLike ''li'' (HtmlLike ''title'' [] None # fst (wrapPars (a_content (last rest))))
                 None \<in> set lis"
proof -
  let ?m = "Macro ''item'' (Some (a # rest)) ri"
  have mem: "?m \<in> set (listItems (e_content env))"
    using assms(2) by (rule listItems_member) simp_all
  have "argContent l = Some []"
    using assms(5,6) by (simp add: argContent_def)
  then have lab: "itemLabel ?m = Some []"
    using assms(4) by (auto simp: item_label_and_body split: if_splits)
  have bod: "itemBody ?m = a_content (last rest)"
    using assms(3) by (simp add: item_label_and_body)
  have "\<exists>m \<in> set (listItems (e_content env)). itemLabel m \<noteq> None"
    using mem lab by auto
  then have "enumerateFactory wrapPars parentTag env =
      Inr (HtmlLike ''dl'' (map (listItemHtml wrapPars) (listItems (e_content env))) None)"
    using enumerateFactory_returns [OF assms(1), of wrapPars parentTag] by simp
  moreover have "listItemHtml wrapPars ?m =
      HtmlLike ''li'' (HtmlLike ''title'' [] None # fst (wrapPars (a_content (last rest)))) None"
    by (simp add: listItemHtml_def lab bod)
  ultimately show ?thesis
    using mem by force
qed

text \<open>
  The amended C10 at an enumerate whose single item was written with an empty
  optional argument (open mark \<^verbatim>\<open>[\<close>, no content).
\<close>

theorem enumerateFactory_empty_label_witness:
  "MacroNode (Macro ''item''
       (Some [Argument ''['' [] '']'', Argument [] [StringNode ''b''] []]) None)
     \<in> set [MacroNode (Macro ''item''
          (Some [Argument ''['' [] '']'', Argument [] [StringNode ''b''] []]) None)]
   \<and> openMark (Argument ''['' [] '']'') \<noteq> []
   \<and> a_content (Argument ''['' [] '']'') = []
   \<and> (\<exists>lis. enumerateFactory wrapOnePar (Some ''ol'')
         (Environment ''enumerate'' None
            [MacroNode (Macro ''item''
               (Some [Argument ''['' [] '']'', Argument [] [StringNode ''b''] []]) None)] None)
         = Inr (HtmlLike ''dl'' lis None)
       \<and> HtmlLike ''li'' [HtmlLike ''title'' [] None, HtmlLike ''p'' [StringNode ''b''] None] None
           \<in> set lis)"
  using enumerateFactory_empty_label [of
     "Environment ''enumerate'' None
            [MacroNode (Macro ''item''
               (Some [Argument ''['' [] '']'', Argument [] [StringNode ''b''] []]) None)] None"
     "Argument ''['' [] '']''" "[Argument [] [StringNode ''b''] []]" None
     "Argument ''['' [] '']''" wrapOnePar "Some ''ol''"]
  by (simp add: wrapOnePar_def trim_def)

section \<open>Properties of the block rule and of the registry\<close>

text \<open>
  Looking a selector up in an object built from entries, and the selectors of
  the generated entries.
\<close>

lemma fromEntries_map_of: "fromEntries es = map_of (rev es)"
proof -
  have "foldl (\<lambda>m (k, v). m(k \<mapsto> v)) m0 es = m0 ++ map_of (rev es)" for m0 :: "string \<rightharpoonup> 'a"
    by (induction es arbitrary: m0) (auto simp: map_add_upd_left)
  then show ?thesis by (simp add: fromEntries_def)
qed

lemma fromEntries_distinct:
  "distinct (map fst es) \<Longrightarrow> (k, v) \<in> set es \<Longrightarrow> fromEntries es k = Some v"
  by (simp add: fromEntries_map_of rev_map [symmetric])

lemma dom_fromEntries: "dom (fromEntries es) = set (map fst es)"
  by (simp add: fromEntries_map_of dom_map_of_conv_image_fst)

lemma distinct_generatedNames: "distinct generatedNames"
  by (simp add: generatedNames_def envAliases_def)


lemma map_fst_exapandedEnvAliases: "map fst (exapandedEnvAliases wrapPars) = generatedNames"
  by (simp add: exapandedEnvAliases_def generatedNames_def map_concat comp_def
        case_prod_unfold)

lemma in_concat_map: "x \<in> set xs \<Longrightarrow> y \<in> set (f x) \<Longrightarrow> y \<in> set (concat (map f xs))"
  by auto

lemma exapandedEnvAliases_member:
  assumes "(env, spec) \<in> set envAliases" and "name \<in> set (env # aliases spec)"
  shows "(name, blockRule wrapPars env
                  (no_options\<lparr>requiresStatementTag := Some (requiresStatement spec)\<rparr>))
         \<in> set (exapandedEnvAliases wrapPars)"
  unfolding exapandedEnvAliases_def
  by (rule in_concat_map [OF assms(1)]) (use assms(2) in auto)

lemma generated_lookup:
  assumes "(env, spec) \<in> set envAliases" and "name \<in> set (env # aliases spec)"
  shows "genEnvironmentReplacements wrapPars name =
           Some (blockRule wrapPars env
                   (no_options\<lparr>requiresStatementTag := Some (requiresStatement spec)\<rparr>))"
  unfolding genEnvironmentReplacements_def
  by (rule fromEntries_distinct)
     (simp_all add: map_fst_exapandedEnvAliases distinct_generatedNames
        exapandedEnvAliases_member [OF assms])

lemma assembled_lookup_generated:
  "genEnvironmentReplacements wrapPars name = Some r \<Longrightarrow>
   environmentReplacements wrapPars createTableFromTabular name = Some r"
  by (simp add: environmentReplacements_def objectWithSpread_def)

lemma canonical_not_alias:
  assumes "(env, spec) \<in> set envAliases"
  shows "env \<notin> set (aliases spec)"
proof -
  have "env # aliases spec \<in> set (map (\<lambda>(env, spec). env # aliases spec) envAliases)"
    using assms by force
  then have "distinct (env # aliases spec)"
    using distinct_generatedNames unfolding generatedNames_def distinct_concat_iff by blast
  then show ?thesis by simp
qed

lemma blockRule_generated:
  "blockRule wrapPars tag (no_options\<lparr>requiresStatementTag := Some b\<rparr>)
       (Environment name args content ri) info file =
     Returned
       (Single (HtmlLike tag
          ((case getArgsContent args of Some t # _ \<Rightarrow> [HtmlLike ''title'' t None] | _ \<Rightarrow> [])
           @ (if b then [HtmlLike ''statement'' (fst (wrapPars content)) None]
              else fst (wrapPars content)))
          (Some (case ri of None \<Rightarrow> [] | Some a \<Rightarrow> a))))
       (Environment name args (snd (wrapPars content)) ri) file"
  by (cases "file") (simp_all add: blockRule_def envFactory_def no_options_def Let_def)

text \<open>
  C1: for every canonical name of the alias table and every selector that is
  the name itself or one of its aliases, the generated registry has a rule for
  the selector (and the assembled registry has the same rule), and applying it
  to an environment with that selector returns exactly one block element whose
  tag is the canonical name; an alias is never its canonical name, so the tag is
  never the alias spelling.
\<close>

theorem generated_rule_yields_canonical_tag:
  assumes "(env, spec) \<in> set envAliases" and "name \<in> set (env # aliases spec)"
  shows "\<exists>rule content attributes env' file'.
           genEnvironmentReplacements wrapPars name = Some rule
           \<and> environmentReplacements wrapPars createTableFromTabular name = Some rule
           \<and> rule (Environment name args cont ri) info file
               = Returned (Single (HtmlLike env content attributes)) env' file'
           \<and> (name \<in> set (aliases spec) \<longrightarrow> env \<noteq> name)"
proof -
  let ?rule = "blockRule wrapPars env
                 (no_options\<lparr>requiresStatementTag := Some (requiresStatement spec)\<rparr>)"
  have gen: "genEnvironmentReplacements wrapPars name = Some ?rule"
    by (rule generated_lookup [OF assms])
  have all: "environmentReplacements wrapPars createTableFromTabular name = Some ?rule"
    by (rule assembled_lookup_generated [OF gen])
  have differ: "name \<in> set (aliases spec) \<longrightarrow> env \<noteq> name"
    using canonical_not_alias [OF assms(1)] by auto
  show ?thesis
    by (intro exI conjI) (rule gen, rule all, rule blockRule_generated, rule differ)
qed

text \<open>
  C1 at the alias \<^verbatim>\<open>thm\<close> of \<^verbatim>\<open>theorem\<close>.
\<close>

theorem generated_rule_yields_canonical_tag_witness:
  "(''theorem'', \<lparr> requiresStatement = True,
                   aliases = [''thm'', ''theo'', ''theor'', ''thmss'', ''thrm''] \<rparr>) \<in> set envAliases
   \<and> ''thm'' \<in> set [''theorem'', ''thm'', ''theo'', ''theor'', ''thmss'', ''thrm'']
   \<and> (\<exists>rule content attributes env' file'.
         genEnvironmentReplacements wrapOnePar ''thm'' = Some rule
         \<and> environmentReplacements wrapOnePar
              (\<lambda>env info file. Returned (Single (EnvironmentNode env)) env file) ''thm'' = Some rule
         \<and> rule (Environment ''thm'' None [StringNode ''x''] None) () None
             = Returned (Single (HtmlLike ''theorem'' content attributes)) env' file')"
proof -
  have mem: "(''theorem'', \<lparr> requiresStatement = True,
                   aliases = [''thm'', ''theo'', ''theor'', ''thmss'', ''thrm''] \<rparr>) \<in> set envAliases"
    by code_simp
  have name: "''thm'' \<in> set (''theorem'' # aliases \<lparr> requiresStatement = True,
                   aliases = [''thm'', ''theo'', ''theor'', ''thmss'', ''thrm''] \<rparr>)"
    by simp
  note w = generated_rule_yields_canonical_tag [OF mem name, of wrapOnePar
        "\<lambda>env info file. Returned (Single (EnvironmentNode env)) env file" None
        "[StringNode ''x'']" None "()" None]
  show ?thesis
    using mem w by simp
qed

lemma blockRule_titled_statement:
  assumes "argContent title \<noteq> None"
  shows "blockRule wrapPars tag (no_options\<lparr>requiresStatementTag := Some True\<rparr>)
       (Environment name (Some (title # rest)) cont ri) info file =
     Returned
       (Single (HtmlLike tag
          [HtmlLike ''title'' (a_content title) None,
           HtmlLike ''statement'' (fst (wrapPars cont)) None]
          (Some (case ri of None \<Rightarrow> [] | Some a \<Rightarrow> a))))
       (Environment name (Some (title # rest)) (snd (wrapPars cont)) ri) file"
  using assms
  by (simp add: blockRule_generated getArgsContent_def argContent_def split: if_splits)

text \<open>
  C4: for a canonical block that requires a statement, a selector that is the
  name or one of its aliases, and an environment with that selector whose first
  argument was supplied, the generated rule returns one block tagged with the
  canonical name whose content is, in order, a title element holding the
  argument's content and a statement element around the paragraph-wrapped body.
  The environment's content array is afterwards what the paragraph wrapper left
  in it.
\<close>

theorem alias_title_then_statement:
  assumes "(env, spec) \<in> set envAliases" and "requiresStatement spec"
    and "name \<in> set (env # aliases spec)"
    and "argContent title \<noteq> None"
  shows "\<exists>rule. genEnvironmentReplacements wrapPars name = Some rule
           \<and> rule (Environment name (Some (title # rest)) cont ri) info file =
               Returned
                 (Single (HtmlLike env
                    [HtmlLike ''title'' (a_content title) None,
                     HtmlLike ''statement'' (fst (wrapPars cont)) None]
                    (Some (case ri of None \<Rightarrow> [] | Some a \<Rightarrow> a))))
                 (Environment name (Some (title # rest)) (snd (wrapPars cont)) ri) file"
proof -
  let ?rule = "blockRule wrapPars env (no_options\<lparr>requiresStatementTag := Some True\<rparr>)"
  have "genEnvironmentReplacements wrapPars name = Some ?rule"
    using generated_lookup [OF assms(1,3), of wrapPars] assms(2) by simp
  then show ?thesis
    by (intro exI conjI) (assumption, rule blockRule_titled_statement [OF assms(4)])
qed

text \<open>
  C4 at an environment \<^verbatim>\<open>thm\<close> with the optional argument \<^verbatim>\<open>Pythagoras\<close>.
\<close>

theorem alias_title_then_statement_witness:
  "(''theorem'', \<lparr> requiresStatement = True,
                   aliases = [''thm'', ''theo'', ''theor'', ''thmss'', ''thrm''] \<rparr>) \<in> set envAliases
   \<and> argContent (Argument ''['' [StringNode ''Pythagoras''] '']'') \<noteq> None
   \<and> (\<exists>rule. genEnvironmentReplacements wrapOnePar ''thm'' = Some rule
         \<and> rule (Environment ''thm'' (Some [Argument ''['' [StringNode ''Pythagoras''] '']''])
                    [StringNode ''a^2 + b^2 = c^2''] None) () None =
             Returned
               (Single (HtmlLike ''theorem''
                  [HtmlLike ''title'' [StringNode ''Pythagoras''] None,
                   HtmlLike ''statement'' [HtmlLike ''p'' [StringNode ''a^2 + b^2 = c^2''] None] None]
                  (Some [])))
               (Environment ''thm'' (Some [Argument ''['' [StringNode ''Pythagoras''] '']''])
                    [StringNode ''a^2 + b^2 = c^2''] None) None)"
proof -
  have mem: "(''theorem'', \<lparr> requiresStatement = True,
                   aliases = [''thm'', ''theo'', ''theor'', ''thmss'', ''thrm''] \<rparr>) \<in> set envAliases"
    by code_simp
  have req: "requiresStatement \<lparr> requiresStatement = True,
                   aliases = [''thm'', ''theo'', ''theor'', ''thmss'', ''thrm''] \<rparr>"
    by simp
  have name: "''thm'' \<in> set (''theorem'' # aliases \<lparr> requiresStatement = True,
                   aliases = [''thm'', ''theo'', ''theor'', ''thmss'', ''thrm''] \<rparr>)"
    by simp
  have title: "argContent (Argument ''['' [StringNode ''Pythagoras''] '']'') \<noteq> None"
    by (simp add: argContent_def)
  note w = alias_title_then_statement [OF mem req name title, of wrapOnePar "[]"
        "[StringNode ''a^2 + b^2 = c^2'']" None "()" None]
  show ?thesis
    using mem title w by (simp add: wrapOnePar_def trim_def)
qed

text \<open>
  The written selectors are no generated selectors, so looking one of them up in
  the assembled registry finds the written entry.
\<close>

lemma written_not_generated:
  "''enumerate'' \<notin> set generatedNames" "''itemize'' \<notin> set generatedNames"
  "''tabular'' \<notin> set generatedNames" "''center'' \<notin> set generatedNames"
  "''quote'' \<notin> set generatedNames" "''figure'' \<notin> set generatedNames"
  "''table'' \<notin> set generatedNames"
  by code_simp+

lemma dom_genEnvironmentReplacements:
  "dom (genEnvironmentReplacements wrapPars) = set generatedNames"
  by (simp add: genEnvironmentReplacements_def dom_fromEntries map_fst_exapandedEnvAliases
        del: set_map)

lemma written_lookup:
  assumes "name \<notin> set generatedNames"
  shows "genEnvironmentReplacements wrapPars name = None"
    and "environmentReplacements wrapPars createTableFromTabular name =
           fromEntries (writtenEntries wrapPars createTableFromTabular) name"
proof -
  show none: "genEnvironmentReplacements wrapPars name = None"
    using assms dom_genEnvironmentReplacements [of wrapPars] by blast
  then show "environmentReplacements wrapPars createTableFromTabular name =
           fromEntries (writtenEntries wrapPars createTableFromTabular) name"
    by (simp add: environmentReplacements_def objectWithSpread_def map_add_def)
qed

lemma fromEntries_writtenEntries:
  "fromEntries (writtenEntries w t) ''enumerate'' = Some (listRule w (Some ''ol''))"
  "fromEntries (writtenEntries w t) ''itemize'' = Some (listRule w (Some ''ul''))"
  "fromEntries (writtenEntries w t) ''tabular'' = Some t"
  "fromEntries (writtenEntries w t) ''center'' = Some (blockRule w ''blockquote'' no_options)"
  "fromEntries (writtenEntries w t) ''quote'' = Some (blockRule w ''blockquote'' no_options)"
  "fromEntries (writtenEntries w t) ''figure'' = Some (blockRule w ''figure'' containerOptions)"
  "fromEntries (writtenEntries w t) ''table'' = Some (blockRule w ''table'' containerOptions)"
  by (simp_all add: fromEntries_def writtenEntries_def)




text \<open>
  With paragraph wrapping off and no statement wrapper, the title is written
  into the environment's own content.
\<close>

lemma envFactory_shared_content:
  "snd (envFactory wrapPars ''figure''
          \<lparr> requiresStatementTag = None, wrapContentInPars = Some False,
            extractTitleFromArgs = None, warningMessage = None \<rparr>
          (Environment ''figure'' (Some [Argument ''['' [StringNode ''t''] '']'']) [] None) () None)
   = (Environment ''figure'' (Some [Argument ''['' [StringNode ''t''] '']''])
        [HtmlLike ''title'' [StringNode ''t''] None] None, None)"
  by (simp add: envFactory_def getArgsContent_def argContent_def Let_def)

text \<open>
  C3, as stated: the only side effect of a rule built by \<^verbatim>\<open>envFactory\<close> is
  emitting at most one diagnostic. It fails for the rule of \<^verbatim>\<open>quote\<close> on an
  environment whose content has whitespace at its ends: the content array itself
  goes to the paragraph wrapper, which trims it in place, so the environment is
  not what it was before the call.
\<close>

theorem envFactory_content_trimmed_counterexample:
  "environmentReplacements wrapOnePar
       (\<lambda>env info file. Returned (Single (EnvironmentNode env)) env file) ''quote''
     = Some (blockRule wrapOnePar ''blockquote'' no_options)
   \<and> blockRule wrapOnePar ''blockquote'' no_options
        (Environment ''quote'' None [Whitespace, StringNode ''x'', Whitespace] None) () None
     = Returned (Single (HtmlLike ''blockquote'' [HtmlLike ''p'' [StringNode ''x''] None] (Some [])))
         (Environment ''quote'' None [StringNode ''x''] None) None
   \<and> Environment ''quote'' None [StringNode ''x''] None
       \<noteq> Environment ''quote'' None [Whitespace, StringNode ''x'', Whitespace] None"
  by (simp add: written_lookup written_not_generated fromEntries_writtenEntries
        blockRule_def envFactory_def no_options_def getArgsContent_def wrapOnePar_def trim_def
        Let_def)

text \<open>
  C3, amended: every rule built by \<^verbatim>\<open>envFactory\<close>, applied to any environment on
  which its call of the paragraph wrapper returns, returns exactly one node (the
  rule has no raise and no handler of its own): a block element with the given
  tag, the composed content (title, statement wrapper, wrapped body) and the
  attributes of the environment. It appends at most one diagnostic to the file.
  It leaves the environment as it was except for the content array: with
  paragraph wrapping on, the array is what the paragraph wrapper left in it; with
  wrapping off and a statement wrapper it is untouched; with wrapping off and no
  statement wrapper it is the content of the returned block (the title, when one
  is extracted, is written in front of it).
\<close>

theorem envFactory_one_block:
  "\<exists>file'.
     blockRule wrapPars tag options env info file =
       Returned
         (Single (HtmlLike tag
            ((case (if extractTitleFromArgs options = Some False then []
                    else getArgsContent (e_args env)) of
                Some t # _ \<Rightarrow> [HtmlLike ''title'' t None]
              | _ \<Rightarrow> [])
             @ (if requiresStatementTag options = Some True
                then [HtmlLike ''statement''
                        (if wrapContentInPars options = Some False then e_content env
                         else fst (wrapPars (e_content env))) None]
                else if wrapContentInPars options = Some False then e_content env
                else fst (wrapPars (e_content env))))
            (Some (case e_additionalAttributes env of None \<Rightarrow> [] | Some a \<Rightarrow> a))))
         (Environment (e_env env) (e_args env)
            (if wrapContentInPars options = Some False
             then (if requiresStatementTag options = Some True then e_content env
                   else (case (if extractTitleFromArgs options = Some False then []
                               else getArgsContent (e_args env)) of
                           Some t # _ \<Rightarrow> [HtmlLike ''title'' t None]
                         | _ \<Rightarrow> []) @ e_content env)
             else snd (wrapPars (e_content env)))
            (e_additionalAttributes env))
         file'
     \<and> (diagnostics file' = diagnostics file
          \<or> (\<exists>text. diagnostics file' =
                 diagnostics file @ [WarningMessage env text ''env-subs'']))"
proof -
  define r where "r = envFactory wrapPars tag options env info file"
  have rule: "blockRule wrapPars tag options env info file =
                Returned (Single (fst r)) (fst (snd r)) (snd (snd r))"
    by (simp add: blockRule_def r_def split: prod.splits)
  have node: "fst r = HtmlLike tag
            ((case (if extractTitleFromArgs options = Some False then []
                    else getArgsContent (e_args env)) of
                Some t # _ \<Rightarrow> [HtmlLike ''title'' t None]
              | _ \<Rightarrow> [])
             @ (if requiresStatementTag options = Some True
                then [HtmlLike ''statement''
                        (if wrapContentInPars options = Some False then e_content env
                         else fst (wrapPars (e_content env))) None]
                else if wrapContentInPars options = Some False then e_content env
                else fst (wrapPars (e_content env))))
            (Some (case e_additionalAttributes env of None \<Rightarrow> [] | Some a \<Rightarrow> a))"
    unfolding r_def envFactory_def Let_def
    by (cases "requiresStatementTag options"; cases "wrapContentInPars options";
        cases "extractTitleFromArgs options") simp_all
  have after: "fst (snd r) = Environment (e_env env) (e_args env)
            (if wrapContentInPars options = Some False
             then (if requiresStatementTag options = Some True then e_content env
                   else (case (if extractTitleFromArgs options = Some False then []
                               else getArgsContent (e_args env)) of
                           Some t # _ \<Rightarrow> [HtmlLike ''title'' t None]
                         | _ \<Rightarrow> []) @ e_content env)
             else snd (wrapPars (e_content env)))
            (e_additionalAttributes env)"
    unfolding r_def envFactory_def Let_def
    by (cases "requiresStatementTag options"; cases "wrapContentInPars options";
        cases "extractTitleFromArgs options") simp_all
  have diag: "diagnostics (snd (snd r)) = diagnostics file
          \<or> (\<exists>text. diagnostics (snd (snd r)) =
                 diagnostics file @ [WarningMessage env text ''env-subs''])"
    unfolding r_def envFactory_def Let_def
    by (cases "file")
       (simp_all add: diagnostics_def file_message_def makeWarningMessage_def)
  show ?thesis
    unfolding rule node after
    by (intro exI conjI) (rule refl, rule diag)
qed

section \<open>Properties of environment removal\<close>

text \<open>
  C5, as stated: the environment-removal rule returns the content unmodified and
  unconditionally records exactly one diagnostic. It fails when the rule is
  called without a file: \<^verbatim>\<open>file?.message\<close> records nothing then.
\<close>

theorem removeEnv_no_file_counterexample:
  "length (diagnostics (snd (removeEnv (Environment ''foo'' None [StringNode ''x''] None) () None)))
   \<noteq> length (diagnostics None) + 1"
  by (simp add: removeEnv_def diagnostics_def)

text \<open>
  C5, amended: for every environment, the environment-removal rule returns the
  environment's content unmodified (so the number of nodes is that of the
  content); called with a file it appends exactly one warning to the file's
  messages, whose text names the removed environment; called without a file it
  records nothing.
\<close>

theorem removeEnv_content_and_warning:
  "removeEnv env info None = (e_content env, None)
   \<and> length (fst (removeEnv env info file)) = length (e_content env)
   \<and> removeEnv env info (Some f) =
       (e_content env,
        Some (f\<lparr>messages := messages f @
                 [WarningMessage env
                    (''Warning: There is no equivalent tag for '' @ [CHR 0x22] @ e_env env @
                     [CHR 0x22] @ '', so the '' @ e_env env @ '' environment was removed.'')
                    ''environment-subs'']\<rparr>))
   \<and> diagnostics (snd (removeEnv env info (Some f))) =
       diagnostics (Some f) @
         [WarningMessage env
            (''Warning: There is no equivalent tag for '' @ [CHR 0x22] @ e_env env @
             [CHR 0x22] @ '', so the '' @ e_env env @ '' environment was removed.'')
            ''environment-subs'']"
  by (simp add: removeEnv_def file_message_def makeWarningMessage_def diagnostics_def)

section \<open>Properties of the systeme rule\<close>

text \<open>
  C6: for a systeme macro whose argument extraction and array conversion
  succeed: without a \<^verbatim>\<open>sysdelims\<close> render hint the output is the \<^verbatim>\<open>left\<close>
  macro, the default opening brace, the converted array, the \<^verbatim>\<open>right\<close> macro
  and the default period; with a hint of two delimiter sequences the output is
  the \<^verbatim>\<open>left\<close> macro, the first sequence, the array, the \<^verbatim>\<open>right\<close> macro
  and the second sequence, with no default token added.
\<close>

theorem systeme_delimiters:
  assumes "getArgs (Macro name args sd) = Inr slots"
    and "systemeContentsToArray (case slot slots 3 of None \<Rightarrow> [] | Some eqs \<Rightarrow> eqs)
           \<lparr> properSpacing = False, whitelistedVariables = slot slots 1 \<rparr> = Inr ret"
  shows "(sd = None \<longrightarrow>
            systeme getArgs systemeContentsToArray (Macro name args sd) =
              Many [MacroNode LEFT, MacroNode DEFAULT_LEFT_DELIM, ret,
                    MacroNode RIGHT, DEFAULT_RIGHT_DELIM])
         \<and> (\<forall>front back. sd = Some (Some front, Some back) \<longrightarrow>
               systeme getArgs systemeContentsToArray (Macro name args sd) =
                 Many ([MacroNode LEFT] @ front @ [ret, MacroNode RIGHT] @ back))"
  using assms by (auto simp: systeme_def Let_def)

text \<open>
  C6 at a systeme macro without a hint and at one with the hint of a pair of
  square brackets.
\<close>

theorem systeme_delimiters_witness:
  "systeme (\<lambda>m. Inr (getArgsContent (m_args m)))
           (\<lambda>eqs opts. Inr (EnvironmentNode (Environment ''array'' None eqs None)))
           (Macro ''systeme''
              (Some [Argument [] [] [], Argument [] [] [], Argument [] [] [],
                     Argument ''{'' [StringNode ''x=1''] ''}'']) None)
     = Many [MacroNode (Macro ''left'' None None), MacroNode (Macro ''{'' None None),
             EnvironmentNode (Environment ''array'' None [StringNode ''x=1''] None),
             MacroNode (Macro ''right'' None None), StringNode ''.'']
   \<and> systeme (\<lambda>m. Inr (getArgsContent (m_args m)))
           (\<lambda>eqs opts. Inr (EnvironmentNode (Environment ''array'' None eqs None)))
           (Macro ''systeme''
              (Some [Argument [] [] [], Argument [] [] [], Argument [] [] [],
                     Argument ''{'' [StringNode ''x=1''] ''}''])
              (Some (Some [StringNode ''[''], Some [StringNode '']''])))
     = Many [MacroNode (Macro ''left'' None None), StringNode ''['',
             EnvironmentNode (Environment ''array'' None [StringNode ''x=1''] None),
             MacroNode (Macro ''right'' None None), StringNode '']'']"
  using
    systeme_delimiters [of "\<lambda>m. Inr (getArgsContent (m_args m))" "''systeme''"
      "Some [Argument [] [] [], Argument [] [] [], Argument [] [] [],
             Argument ''{'' [StringNode ''x=1''] ''}'']"
      None
      "[None, None, None, Some [StringNode ''x=1'']]"
      "\<lambda>eqs opts. Inr (EnvironmentNode (Environment ''array'' None eqs None))"
      "EnvironmentNode (Environment ''array'' None [StringNode ''x=1''] None)"]
    systeme_delimiters [of "\<lambda>m. Inr (getArgsContent (m_args m))" "''systeme''"
      "Some [Argument [] [] [], Argument [] [] [], Argument [] [] [],
             Argument ''{'' [StringNode ''x=1''] ''}'']"
      "Some (Some [StringNode ''[''], Some [StringNode '']''])"
      "[None, None, None, Some [StringNode ''x=1'']]"
      "\<lambda>eqs opts. Inr (EnvironmentNode (Environment ''array'' None eqs None))"
      "EnvironmentNode (Environment ''array'' None [StringNode ''x=1''] None)"]
  by (simp add: getArgsContent_def argContent_def slot_def LEFT_def RIGHT_def
        DEFAULT_LEFT_DELIM_def DEFAULT_RIGHT_DELIM_def)

text \<open>
  C7: if the argument extraction or the array conversion raises, the systeme
  rule returns the node it was given, unmodified; the registry holds this rule
  for \<^verbatim>\<open>systeme\<close>, and for \<^verbatim>\<open>sysdelim\<close> a rule that returns the empty node
  sequence for every node.
\<close>

theorem systeme_failure_returns_node:
  "(getArgs node = Inl e \<longrightarrow>
      systeme getArgs systemeContentsToArray node = Single (MacroNode node))
   \<and> (getArgs node = Inr slots
        \<and> systemeContentsToArray (case slot slots 3 of None \<Rightarrow> [] | Some eqs \<Rightarrow> eqs)
             \<lparr> properSpacing = False, whitelistedVariables = slot slots 1 \<rparr> = Inl e \<longrightarrow>
      systeme getArgs systemeContentsToArray node = Single (MacroNode node))
   \<and> mathjaxSpecificMacroReplacements getArgs systemeContentsToArray ''systeme''
       = Some (systeme getArgs systemeContentsToArray)
   \<and> mathjaxSpecificMacroReplacements getArgs systemeContentsToArray ''sysdelim'' = Some sysdelim
   \<and> sysdelim node = Many []"
  by (simp add: systeme_def Let_def mathjaxSpecificMacroReplacements_def fromEntries_def
        sysdelim_def)

text \<open>
  C7 at an extraction that raises and at a conversion that raises.
\<close>

theorem systeme_failure_returns_node_witness:
  "systeme (\<lambda>m. Inl (External ''getArgsContent''))
           (\<lambda>eqs opts. Inr (EnvironmentNode (Environment ''array'' None eqs None)))
           (Macro ''systeme'' None None)
     = Single (MacroNode (Macro ''systeme'' None None))
   \<and> systeme (\<lambda>m. Inr (getArgsContent (m_args m)))
           (\<lambda>eqs opts. Inl (External ''systemeContentsToArray''))
           (Macro ''systeme'' (Some [Argument ''{'' [StringNode ''x=1''] ''}'']) None)
     = Single (MacroNode (Macro ''systeme'' (Some [Argument ''{'' [StringNode ''x=1''] ''}'']) None))
   \<and> sysdelim (Macro ''sysdelim'' None None) = Many []"
  using
    systeme_failure_returns_node [of "\<lambda>m. Inl (External ''getArgsContent'')"
      "Macro ''systeme'' None None" "External ''getArgsContent''"
      "\<lambda>eqs opts. Inr (EnvironmentNode (Environment ''array'' None eqs None))" "[]"]
    systeme_failure_returns_node [of "\<lambda>m. Inr (getArgsContent (m_args m))"
      "Macro ''systeme'' (Some [Argument ''{'' [StringNode ''x=1''] ''}'']) None"
      "External ''systemeContentsToArray''"
      "\<lambda>eqs opts. Inl (External ''systemeContentsToArray'')"
      "[Some [StringNode ''x=1'']]"]
    systeme_failure_returns_node [of "\<lambda>m. Inl (External ''getArgsContent'')"
      "Macro ''sysdelim'' None None" "External ''getArgsContent''"
      "\<lambda>eqs opts. Inr (EnvironmentNode (Environment ''array'' None eqs None))" "[]"]
  by (simp add: getArgsContent_def argContent_def slot_def)

end
